theory Spec2Isabelle
  imports Main
begin

section \<open>JavaScript values used by the handlers\<close>

text \<open>
  An optional string field (\<open>string | undefined | null\<close>) is a \<open>string option\<close>.
  JavaScript treats \<open>undefined\<close>, \<open>null\<close> and the empty string as falsy, so the
  tests \<open>!x\<close> and \<open>x || d\<close> of the source look at the content too.
\<close>

definition truthy :: "string option \<Rightarrow> bool" where
  "truthy v = (case v of None \<Rightarrow> False | Some s \<Rightarrow> s \<noteq> [])"

text \<open>\<open>x || d\<close> for an optional string \<open>x\<close> and a string \<open>d\<close>.\<close>

definition or_default :: "string option \<Rightarrow> string \<Rightarrow> string" where
  "or_default v d = (case v of None \<Rightarrow> d | Some s \<Rightarrow> if s = [] then d else s)"


text \<open>\<open>data.items || []\<close>.\<close>

definition items_or_empty :: "'a list option \<Rightarrow> 'a list" where
  "items_or_empty items = (case items of None \<Rightarrow> [] | Some xs \<Rightarrow> xs)"

text \<open>\<open>s.replace(pat, rep)\<close> with a string pattern: the first occurrence only.\<close>

fun js_replace :: "string \<Rightarrow> string \<Rightarrow> string \<Rightarrow> string" where
  "js_replace pat rep [] = (if pat = [] then rep else [])"
| "js_replace pat rep (c # cs) =
     (if take (length pat) (c # cs) = pat then rep @ drop (length pat) (c # cs)
      else c # js_replace pat rep cs)"

text \<open>\<open>s.split('@')[0]\<close>: the part of \<open>s\<close> before its first \<open>@\<close>, all of \<open>s\<close> without one.\<close>

definition split_at_first :: "string \<Rightarrow> string" where
  "split_at_first s = takeWhile (\<lambda>c. c \<noteq> CHR ''@'') s"

text \<open>A number inside a template literal: its decimal digits (\<open>digit_char\<close> is used
  below ten only).\<close>

definition digit_char :: "nat \<Rightarrow> char" where
  "digit_char d = ''0123456789'' ! d"

function show_nat :: "nat \<Rightarrow> string" where
  "show_nat n = (if n < 10 then [digit_char n] else show_nat (n div 10) @ [digit_char (n mod 10)])"
  by pat_completeness auto
termination
  by (relation "measure (\<lambda>n. n)") auto

declare show_nat.simps [simp del]

section \<open>fetch-events: data\<close>

text \<open>The \<open>start\<close> and \<open>end\<close> of a \<open>GoogleEvent\<close>.\<close>

record event_time =
  dateTime :: "string option"
  date :: "string option"

text \<open>
  Interface \<open>GoogleEvent\<close>. The fields \<open>id\<close>, \<open>start\<close> and \<open>end\<close> carry the prefix
  \<open>ev_\<close>; \<open>summary\<close> is optional here because the handler defaults it.
\<close>

record GoogleEvent =
  ev_id :: string
  ev_summary :: "string option"
  ev_description :: "string option"
  ev_start :: event_time
  ev_end :: event_time
  ev_location :: "string option"
  htmlLink :: "string option"
  hangoutLink :: "string option"

text \<open>The object built by the \<open>map\<close> callback of \<open>filteredEvents\<close>.\<close>

record calert_event =
  event_id :: string
  title :: string
  description :: string
  startTime :: "string option"
  endTime :: "string option"
  location :: string
  meetingLink :: string

text \<open>The callback of \<open>events.filter\<close>: \<open>event.start.dateTime && event.end.dateTime\<close>.\<close>

definition keep_event :: "GoogleEvent \<Rightarrow> bool" where
  "keep_event event \<longleftrightarrow> truthy (dateTime (ev_start event)) \<and> truthy (dateTime (ev_end event))"

text \<open>The callback of \<open>.map\<close>.\<close>

definition format_event :: "GoogleEvent \<Rightarrow> calert_event" where
  "format_event event =
     \<lparr> event_id = ev_id event,
       title = or_default (ev_summary event) ''Untitled Event'',
       description = or_default (ev_description event) [],
       startTime = dateTime (ev_start event),
       endTime = dateTime (ev_end event),
       location = or_default (ev_location event) [],
       meetingLink = or_default (hangoutLink event) (or_default (htmlLink event) []) \<rparr>"

definition filteredEvents :: "GoogleEvent list \<Rightarrow> calert_event list" where
  "filteredEvents events = map format_event (filter keep_event events)"

text \<open>
  \<open>new Date(s)\<close> is the platform's parser: it is a parameter \<open>parse\<close>, giving the
  instant in milliseconds, or \<open>None\<close> for an Invalid Date. An Invalid Date compares
  false with everything, and so does \<open>new Date(undefined)\<close>.
\<close>

definition new_Date :: "(string \<Rightarrow> int option) \<Rightarrow> string option \<Rightarrow> int option" where
  "new_Date parse v = (case v of None \<Rightarrow> None | Some s \<Rightarrow> parse s)"

text \<open>The callback of \<open>filteredEvents.find\<close>: \<open>eventStart > now\<close>.\<close>

definition starts_after :: "(string \<Rightarrow> int option) \<Rightarrow> int \<Rightarrow> calert_event \<Rightarrow> bool" where
  "starts_after parse now event =
     (case new_Date parse (startTime event) of None \<Rightarrow> False | Some eventStart \<Rightarrow> eventStart > now)"

definition nextEvent_of :: "(string \<Rightarrow> int option) \<Rightarrow> int \<Rightarrow> calert_event list \<Rightarrow> calert_event option" where
  "nextEvent_of parse now evs = find (starts_after parse now) evs"

section \<open>The request, the identity service and the store\<close>

text \<open>What the handlers read of the incoming request: \<open>req.method\<close> and the
  \<open>Authorization\<close> header.\<close>

record request =
  req_method :: string
  authorization :: "string option"

text \<open>The user object of the identity service, with the metadata fields the code reads.\<close>

record User =
  user_id :: string
  email :: "string option"
  full_name :: "string option"
  avatar_url :: "string option"

text \<open>The reply of \<open>auth.getUser(token)\<close>: \<open>{ data: { user }, error }\<close>, the error by its message.\<close>

record getUser_reply =
  gu_error :: "string option"
  gu_user :: "User option"

record Session =
  session_user :: User
  provider_token :: "string option"




text \<open>
  Rows of the tables \<open>user_settings\<close> and \<open>user_calendars\<close> of the migration, without
  the generated key and the timestamps. The owner columns are \<open>s_user_id\<close> and
  \<open>c_user_id\<close>.
\<close>

record settings_row =
  s_user_id :: string
  selected_calendar_id :: "string option"
  service_enabled :: bool
  google_access_token :: "string option"
  google_refresh_token :: "string option"
  google_token_expires_at :: "string option"

record calendar_row =
  c_user_id :: string
  calendar_id :: string
  calendar_name :: string
  calendar_description :: "string option"
  is_primary :: bool

record store =
  user_settings :: "settings_row list"
  user_calendars :: "calendar_row list"

text \<open>A reply of the calendar provider: \<open>status\<close>, \<open>text()\<close>, and \<open>json()\<close> read up to its
  \<open>items\<close> field (\<open>Inl\<close>: reading it raises with that message; \<open>None\<close>: no \<open>items\<close>).\<close>

record 'a provider_response =
  http_status :: nat
  text_body :: string
  json_items :: "string + 'a list option"

definition ok :: "'a provider_response \<Rightarrow> bool" where
  "ok r \<longleftrightarrow> 200 \<le> http_status r \<and> http_status r \<le> 299"

text \<open>The request sent to the provider's events endpoint.\<close>

record events_call =
  call_calendar :: string
  timeMin :: int
  timeMax :: int
  singleEvents :: string
  orderBy :: string
  maxResults :: string
  bearer :: string

text \<open>Every call that leaves a handler, in the order made.\<close>

datatype effect =
    GetUser string
  | GetSession
  | SelectSettings string
  | FetchEvents events_call
  | FetchCalendarList string
  | DeleteCalendars string
  | InsertCalendars "calendar_row list"
  | UpsertSettings string string

text \<open>
  What the outside world answers during one request: each external operation is made at
  most once, so one reply each. A storage fault is the message of the error object the
  store client returns for that operation. The session is not among these answers: it
  is read from the handler's own client.
\<close>

record 'a env =
  getUser :: getUser_reply
  clock :: int
  parse_date :: "string \<Rightarrow> int option"
  provider_reply :: "string + 'a provider_response"
  select_fault :: "string option"
  delete_fault :: "string option"
  insert_fault :: "string option"
  upsert_fault :: "string option"

datatype 'p body = Empty | Success 'p | Failure string

record 'p response =
  status :: nat
  body :: "'p body"

text \<open>Lines 45 to 60 of fetch-events, the same as lines 35 to 50 of sync-calendars.\<close>

definition authenticate :: "'a env \<Rightarrow> request \<Rightarrow> (string + User) \<times> effect list" where
  "authenticate e req =
     (case authorization req of
        None \<Rightarrow> (Inl ''No authorization header provided'', [])
      | Some authHeader \<Rightarrow>
          if authHeader = [] then (Inl ''No authorization header provided'', [])
          else
            let token = js_replace ''Bearer '' [] authHeader in
            (case gu_error (getUser e) of
               Some m \<Rightarrow> (Inl (''Authentication error: '' @ m), [GetUser token])
             | None \<Rightarrow>
                 (case gu_user (getUser e) of
                    None \<Rightarrow> (Inl ''User not authenticated'', [GetUser token])
                  | Some user \<Rightarrow> (Inr user, [GetUser token]))))"

section \<open>fetch-events: the handler\<close>

text \<open>\<open>.from('user_settings').select('*').eq('user_id', uid).single()\<close>: an error unless
  exactly one row matches.\<close>

definition select_single :: "string option \<Rightarrow> store \<Rightarrow> string \<Rightarrow> string + settings_row" where
  "select_single fault db uid =
     (case fault of
        Some m \<Rightarrow> Inl m
      | None \<Rightarrow>
          (case filter (\<lambda>r. s_user_id r = uid) (user_settings db) of
             [r] \<Rightarrow> Inr r
           | _ \<Rightarrow> Inl ''JSON object requested, multiple (or no) rows returned''))"

record fetch_payload =
  events :: "calert_event list"
  nextEvent :: "calert_event option"
  totalCount :: nat

text \<open>Lines 125 to 160: the success payload from the provider's \<open>items\<close>.\<close>

definition fetch_success :: "(string \<Rightarrow> int option) \<Rightarrow> int \<Rightarrow> GoogleEvent list option \<Rightarrow> fetch_payload" where
  "fetch_success parse now items =
     (let evs = items_or_empty items;
          fe = filteredEvents evs
      in \<lparr> events = fe, nextEvent = nextEvent_of parse now fe, totalCount = length fe \<rparr>)"

text \<open>Lines 64 to 160, for the authenticated user. Where the request to the provider is
  built, the calendar id and the token are truthy, so \<open>or_default\<close> gives the stored string.\<close>

definition fetch_events_for :: "GoogleEvent env \<Rightarrow> store \<Rightarrow> User \<Rightarrow> (string + fetch_payload) \<times> effect list" where
  "fetch_events_for e db user =
     (case select_single (select_fault e) db (user_id user) of
        Inl m \<Rightarrow> (Inl ''User settings not found. Please complete setup first.'',
                  [SelectSettings (user_id user)])
      | Inr settings \<Rightarrow>
          if \<not> service_enabled settings then
            (Inl ''Calert service is not enabled'', [SelectSettings (user_id user)])
          else if \<not> truthy (selected_calendar_id settings) then
            (Inl ''No calendar selected'', [SelectSettings (user_id user)])
          else if \<not> truthy (google_access_token settings) then
            (Inl ''No Google access token found. Please reconnect your Google account.'',
             [SelectSettings (user_id user)])
          else
            let now = clock e;
                tomorrow = now + 24 * 60 * 60 * 1000;
                call = \<lparr> call_calendar = or_default (selected_calendar_id settings) [],
                         timeMin = now, timeMax = tomorrow, singleEvents = ''true'',
                         orderBy = ''startTime'', maxResults = ''50'',
                         bearer = or_default (google_access_token settings) [] \<rparr>;
                tr = [SelectSettings (user_id user), FetchEvents call]
            in (case provider_reply e of
                  Inl m \<Rightarrow> (Inl m, tr)
                | Inr eventsResponse \<Rightarrow>
                    if \<not> ok eventsResponse then
                      (if http_status eventsResponse = 401 then
                         (Inl ''Google access token expired. Please reconnect your Google account.'', tr)
                       else
                         (Inl (''Google Calendar API error: '' @ show_nat (http_status eventsResponse)
                                @ '' - '' @ text_body eventsResponse), tr))
                    else
                      (case json_items eventsResponse of
                         Inl m \<Rightarrow> (Inl m, tr)
                       | Inr items \<Rightarrow> (Inr (fetch_success (parse_date e) now items), tr))))"

text \<open>The \<open>try\<close> block of fetch-events.\<close>

definition fetch_events_try :: "GoogleEvent env \<Rightarrow> request \<Rightarrow> store \<Rightarrow> (string + fetch_payload) \<times> effect list" where
  "fetch_events_try e req db =
     (case authenticate e req of
        (Inl m, tr) \<Rightarrow> (Inl m, tr)
      | (Inr user, tr) \<Rightarrow>
          (case fetch_events_for e db user of (r, tr') \<Rightarrow> (r, tr @ tr')))"

text \<open>The handler given to \<open>serve\<close>: the pre-flight answer, the \<open>try\<close> block, the \<open>catch\<close>.\<close>

definition fetch_events :: "GoogleEvent env \<Rightarrow> request \<Rightarrow> store \<Rightarrow> fetch_payload response \<times> effect list" where
  "fetch_events e req db =
     (if req_method req = ''OPTIONS'' then (\<lparr> status = 200, body = Empty \<rparr>, [])
      else
        (case fetch_events_try e req db of
           (Inl msg, tr) \<Rightarrow> (\<lparr> status = 500, body = Failure msg \<rparr>, tr)
         | (Inr payload, tr) \<Rightarrow> (\<lparr> status = 200, body = Success payload \<rparr>, tr)))"

section \<open>sync-calendars: the store operations\<close>






section \<open>sync-calendars: the handler\<close>








text \<open>The settings rows of a user.\<close>

definition settings_of :: "string \<Rightarrow> store \<Rightarrow> settings_row list" where
  "settings_of uid db = filter (\<lambda>r. s_user_id r = uid) (user_settings db)"

section \<open>The frontend: profile upsert on sign-in\<close>

text \<open>The object given to \<open>.from('profiles').upsert\<close> by \<open>createOrUpdateProfile\<close>.\<close>

record profile_upsert =
  p_user_id :: string
  p_email :: "string option"
  display_name :: "string option"
  p_avatar_url :: "string option"

text \<open>\<open>user.user_metadata?.full_name || user.email?.split('@')[0]\<close>.\<close>

definition display_name_of :: "User \<Rightarrow> string option" where
  "display_name_of user =
     (if truthy (full_name user) then full_name user
      else (case email user of None \<Rightarrow> None | Some a \<Rightarrow> Some (split_at_first a)))"

definition profile_of :: "User \<Rightarrow> profile_upsert" where
  "profile_of user =
     \<lparr> p_user_id = user_id user, p_email = email user,
       display_name = display_name_of user, p_avatar_url = avatar_url user \<rparr>"

text \<open>
  The state of \<open>AuthProvider\<close>, the timer queue of the event loop (\<open>setTimeout(f, 0)\<close> puts
  \<open>f\<close> at its end) and the upserts sent to the store so far.
\<close>

datatype task = CreateOrUpdateProfile User

record auth_state =
  cur_user :: "User option"
  cur_session :: "Session option"
  loading :: bool
  timers :: "task list"
  sent :: "profile_upsert list"

text \<open>The callback given to \<open>onAuthStateChange\<close>.\<close>

definition onAuthStateChange :: "string \<Rightarrow> Session option \<Rightarrow> auth_state \<Rightarrow> auth_state" where
  "onAuthStateChange event session st =
     (let st1 = st\<lparr> cur_session := session,
                    cur_user := (case session of None \<Rightarrow> None | Some s \<Rightarrow> Some (session_user s)),
                    loading := False \<rparr>
      in (case session of
            None \<Rightarrow> st1
          | Some s \<Rightarrow>
              if event = ''SIGNED_IN''
              then st1\<lparr> timers := timers st1 @ [CreateOrUpdateProfile (session_user s)] \<rparr>
              else st1))"

text \<open>\<open>createOrUpdateProfile\<close>: one upsert; its error is logged, nothing is returned.\<close>

definition createOrUpdateProfile :: "User \<Rightarrow> auth_state \<Rightarrow> auth_state" where
  "createOrUpdateProfile user st = st\<lparr> sent := sent st @ [profile_of user] \<rparr>"

text \<open>One turn of the event loop: the oldest timer runs.\<close>

definition run_timer :: "auth_state \<Rightarrow> auth_state" where
  "run_timer st =
     (case timers st of
        [] \<Rightarrow> st
      | CreateOrUpdateProfile user # rest \<Rightarrow> createOrUpdateProfile user (st\<lparr> timers := rest \<rparr>))"

text \<open>The upsert a timer sends when it runs.\<close>

fun task_upsert :: "task \<Rightarrow> profile_upsert" where
  "task_upsert (CreateOrUpdateProfile user) = profile_of user"

section \<open>The failure causes of a request\<close>




section \<open>Concrete inputs\<close>

text \<open>A user, a request without and one with a bearer credential, and the identity
  service's answers.\<close>

definition alice :: User where
  "alice = \<lparr> user_id = ''u-alice'', email = Some ''alice@example.org'',
             full_name = None, avatar_url = None \<rparr>"


definition post_request :: request where
  "post_request = \<lparr> req_method = ''POST'', authorization = Some ''Bearer session-jwt'' \<rparr>"

definition alice_settings :: settings_row where
  "alice_settings = \<lparr> s_user_id = ''u-alice'', selected_calendar_id = Some ''primary'',
                      service_enabled = True, google_access_token = Some ''ya29.old'',
                      google_refresh_token = None, google_token_expires_at = None \<rparr>"

definition old_row :: calendar_row where
  "old_row = \<lparr> c_user_id = ''u-alice'', calendar_id = ''cal-old'', calendar_name = ''Old'',
               calendar_description = None, is_primary = False \<rparr>"

definition alice_db :: store where
  "alice_db = \<lparr> user_settings = [alice_settings], user_calendars = [old_row] \<rparr>"

text \<open>Three provider events on 2024-05-01: at 09:00, at 10:00, and an all-day one.\<close>

definition timed_event :: "string \<Rightarrow> string \<Rightarrow> string \<Rightarrow> GoogleEvent" where
  "timed_event i a b =
     \<lparr> ev_id = i, ev_summary = None, ev_description = None,
       ev_start = \<lparr> dateTime = Some a, date = None \<rparr>,
       ev_end = \<lparr> dateTime = Some b, date = None \<rparr>,
       ev_location = None, htmlLink = Some ''https://calendar.example/e'', hangoutLink = None \<rparr>"

definition event_0900 :: GoogleEvent where
  "event_0900 = timed_event ''e1'' ''2024-05-01T09:00:00Z'' ''2024-05-01T09:30:00Z''"

definition event_1000 :: GoogleEvent where
  "event_1000 = timed_event ''e2'' ''2024-05-01T10:00:00Z'' ''2024-05-01T11:00:00Z''"

definition event_0945 :: GoogleEvent where
  "event_0945 = timed_event ''e3'' ''2024-05-01T09:45:00Z'' ''2024-05-01T09:50:00Z''"

definition all_day_event :: GoogleEvent where
  "all_day_event =
     \<lparr> ev_id = ''e4'', ev_summary = Some ''Holiday'', ev_description = None,
       ev_start = \<lparr> dateTime = None, date = Some ''2024-05-01'' \<rparr>,
       ev_end = \<lparr> dateTime = None, date = Some ''2024-05-02'' \<rparr>,
       ev_location = None, htmlLink = None, hangoutLink = None \<rparr>"

text \<open>The instants of these strings, in milliseconds since the epoch; 09:30 is the request instant.\<close>

definition parse_example :: "string \<Rightarrow> int option" where
  "parse_example s =
     (if s = ''2024-05-01T09:00:00Z'' then Some 1714554000000
      else if s = ''2024-05-01T09:45:00Z'' then Some 1714556700000
      else if s = ''2024-05-01T10:00:00Z'' then Some 1714557600000
      else None)"

definition at_0930 :: int where
  "at_0930 = 1714555800000"

text \<open>What fetch-events answers for the events of 09:00, all day and 10:00, and the calls it makes.\<close>

definition three_payload :: fetch_payload where
  "three_payload = \<lparr> events = [format_event event_0900, format_event event_1000],
                      nextEvent = Some (format_event event_1000), totalCount = 2 \<rparr>"

definition alice_fetch_calls :: "effect list" where
  "alice_fetch_calls =
     [GetUser ''session-jwt'', SelectSettings ''u-alice'',
      FetchEvents \<lparr> call_calendar = ''primary'', timeMin = at_0930,
                    timeMax = at_0930 + 86400000, singleEvents = ''true'',
                    orderBy = ''startTime'', maxResults = ''50'', bearer = ''ya29.old'' \<rparr>]"

definition world :: "(string + 'a provider_response) \<Rightarrow> 'a env" where
  "world reply =
     \<lparr> getUser = \<lparr> gu_error = None, gu_user = Some alice \<rparr>,
       clock = at_0930, parse_date = parse_example, provider_reply = reply,
       select_fault = None, delete_fault = None, insert_fault = None, upsert_fault = None \<rparr>"

definition ok_reply :: "'a list \<Rightarrow> string + 'a provider_response" where
  "ok_reply xs = Inr \<lparr> http_status = 200, text_body = [], json_items = Inr (Some xs) \<rparr>"

definition error_reply :: "nat \<Rightarrow> string \<Rightarrow> string + 'a provider_response" where
  "error_reply n t = Inr \<lparr> http_status = n, text_body = t, json_items = Inl ''Unexpected token'' \<rparr>"



text \<open>A store where the service is switched off, with a calendar and a token present.\<close>

definition disabled_db :: store where
  "disabled_db = \<lparr> user_settings = [alice_settings\<lparr> service_enabled := False \<rparr>],
                    user_calendars = [] \<rparr>"



text \<open>A second user, with a full name; a session of each; the state of a freshly mounted
  \<open>AuthProvider\<close>.\<close>

definition bob :: User where
  "bob = \<lparr> user_id = ''u-bob'', email = Some ''bob@example.org'',
           full_name = Some ''Bob Builder'', avatar_url = None \<rparr>"

definition session_of :: "User \<Rightarrow> Session" where
  "session_of u = \<lparr> session_user = u, provider_token = Some ''ya29.new'' \<rparr>"

definition mounted :: auth_state where
  "mounted = \<lparr> cur_user = None, cur_session = None, loading = True, timers = [], sent = [] \<rparr>"

section \<open>The handlers on the concrete inputs\<close>

lemma authenticate_example:
  "authenticate (world reply) post_request = (Inr alice, [GetUser ''session-jwt''])"
  by (simp add: authenticate_def world_def post_request_def)

lemma select_example: "select_single None alice_db ''u-alice'' = Inr alice_settings"
  by (simp add: select_single_def alice_db_def alice_settings_def)

lemma fetch_run_example:
  "fetch_events (world (ok_reply xs)) post_request alice_db =
     (\<lparr> status = 200, body = Success (fetch_success parse_example at_0930 (Some xs)) \<rparr>,
      alice_fetch_calls)"
  unfolding fetch_events_def fetch_events_try_def authenticate_example
  by (simp add: post_request_def fetch_events_for_def world_def select_example alice_def
        alice_settings_def truthy_def or_default_def ok_reply_def ok_def alice_fetch_calls_def)

lemma filtered_example:
  "filteredEvents [event_0900, all_day_event, event_1000] =
     [format_event event_0900, format_event event_1000]"
  by (simp add: filteredEvents_def keep_event_def event_0900_def event_1000_def all_day_event_def
        timed_event_def truthy_def)

lemma starts_after_example:
  "\<not> starts_after parse_example at_0930 (format_event event_0900)"
  "starts_after parse_example at_0930 (format_event event_1000)"
  "starts_after parse_example at_0930 (format_event event_0945)"
  by (simp_all add: starts_after_def new_Date_def format_event_def event_0900_def event_1000_def
        event_0945_def timed_event_def parse_example_def at_0930_def)

lemma payload_example:
  "fetch_success parse_example at_0930 (Some [event_0900, all_day_event, event_1000]) = three_payload"
  by (simp add: fetch_success_def items_or_empty_def filtered_example nextEvent_of_def
        starts_after_example three_payload_def)

lemma fetch_three_events:
  "fetch_events (world (ok_reply [event_0900, all_day_event, event_1000])) post_request alice_db
     = (\<lparr> status = 200, body = Success three_payload \<rparr>, alice_fetch_calls)"
  by (simp add: fetch_run_example payload_example)

lemma body_example: "body \<lparr> status = n, body = b \<rparr> = b"
  by simp

section \<open>fetch-events: what a success response holds\<close>

lemma fetch_events_for_InrD:
  assumes "fetch_events_for e db user = (Inr p, tr)"
  shows "\<exists>settings r items.
           select_single (select_fault e) db (user_id user) = Inr settings
         \<and> service_enabled settings
         \<and> truthy (selected_calendar_id settings)
         \<and> truthy (google_access_token settings)
         \<and> provider_reply e = Inr r \<and> ok r \<and> json_items r = Inr items
         \<and> p = fetch_success (parse_date e) (clock e) items"
  using assms
  by (auto simp: fetch_events_for_def Let_def split: sum.splits if_splits)

lemma fetch_events_SuccessD:
  assumes "fetch_events e req db = (resp, tr)" and "body resp = Success p"
  shows "\<exists>user tr1 tr2. authenticate e req = (Inr user, tr1)
           \<and> fetch_events_for e db user = (Inr p, tr2) \<and> tr = tr1 @ tr2 \<and> status resp = 200"
  using assms
  by (auto simp: fetch_events_def fetch_events_try_def split: sum.splits if_splits prod.splits)

lemma fetch_success_items:
  assumes "fetch_events e req db = (resp, tr)" and "body resp = Success p"
  shows "\<exists>r items. provider_reply e = Inr r \<and> ok r \<and> json_items r = Inr items
           \<and> p = fetch_success (parse_date e) (clock e) items"
proof -
  from fetch_events_SuccessD [OF assms] obtain user tr2 where
    "fetch_events_for e db user = (Inr p, tr2)" by blast
  from fetch_events_for_InrD [OF this] show ?thesis by blast
qed

lemma find_in_set: "find P xs = Some x \<Longrightarrow> x \<in> set xs \<and> P x"
  by (induction xs) (auto split: if_splits)

text \<open>
  C10. In every success response of fetch-events, \<open>totalCount\<close> is the length of the
  \<open>events\<close> array, and \<open>nextEvent\<close>, when it is not null, is an element of that array.
\<close>

theorem fetch_totalCount_nextEvent:
  assumes "fetch_events e req db = (resp, tr)" and "body resp = Success p"
  shows "totalCount p = length (events p)
       \<and> (\<forall>ev. nextEvent p = Some ev \<longrightarrow> ev \<in> set (events p))"
proof -
  from fetch_success_items [OF assms] obtain items where
    p: "p = fetch_success (parse_date e) (clock e) items" by blast
  show ?thesis
    by (auto simp: p fetch_success_def Let_def nextEvent_of_def dest: find_in_set)
qed

theorem fetch_totalCount_nextEvent_witness:
  "fetch_events (world (ok_reply [event_0900, all_day_event, event_1000])) post_request alice_db
     = (\<lparr> status = 200, body = Success three_payload \<rparr>, alice_fetch_calls)
   \<and> totalCount three_payload = 2 \<and> length (events three_payload) = 2
   \<and> nextEvent three_payload = Some (format_event event_1000)
   \<and> format_event event_1000 \<in> set (events three_payload)"
  using fetch_totalCount_nextEvent [OF fetch_three_events body_example] fetch_three_events
  by (simp add: three_payload_def)

text \<open>
  C4. An event of the provider's list is in the result of a successful fetch exactly when
  both its start and its end carry a time of day, that is a \<open>dateTime\<close> that is present
  and not the empty string (what JavaScript's \<open>&&\<close> tests). An event without a \<open>dateTime\<close>
  on its start or end, a date-only event, is never in the result, whatever its \<open>date\<close>.
\<close>

theorem fetch_keeps_timed_events:
  assumes "fetch_events e req db = (resp, tr)" and "body resp = Success p"
  shows "\<exists>r items. provider_reply e = Inr r \<and> json_items r = Inr items
           \<and> events p = map format_event (filter keep_event (items_or_empty items))
           \<and> (\<forall>ev. keep_event ev \<longleftrightarrow>
                  (\<exists>s. dateTime (ev_start ev) = Some s \<and> s \<noteq> [])
                \<and> (\<exists>s. dateTime (ev_end ev) = Some s \<and> s \<noteq> []))
           \<and> (\<forall>ev. dateTime (ev_start ev) = None \<or> dateTime (ev_end ev) = None
                  \<longrightarrow> ev \<notin> set (filter keep_event (items_or_empty items)))"
proof -
  from fetch_success_items [OF assms] obtain r items where
    r: "provider_reply e = Inr r" "json_items r = Inr items"
    and p: "p = fetch_success (parse_date e) (clock e) items" by blast
  have ev: "events p = map format_event (filter keep_event (items_or_empty items))"
    by (simp add: p fetch_success_def Let_def filteredEvents_def)
  have k: "\<And>ev. keep_event ev \<longleftrightarrow>
                  (\<exists>s. dateTime (ev_start ev) = Some s \<and> s \<noteq> [])
                \<and> (\<exists>s. dateTime (ev_end ev) = Some s \<and> s \<noteq> [])"
    by (auto simp: keep_event_def truthy_def split: option.splits)
  have "\<And>ev. dateTime (ev_start ev) = None \<or> dateTime (ev_end ev) = None \<Longrightarrow> \<not> keep_event ev"
    by (auto simp: k)
  with r ev k show ?thesis by auto
qed

lemma keep_example:
  "filter keep_event [event_0900, all_day_event, event_1000] = [event_0900, event_1000]"
  by (simp add: keep_event_def event_0900_def event_1000_def all_day_event_def
        timed_event_def truthy_def)

lemma reply_example:
  "provider_reply (world (ok_reply xs)) = Inr r \<Longrightarrow> json_items r = Inr items
     \<Longrightarrow> items_or_empty items = xs"
  by (auto simp: world_def ok_reply_def items_or_empty_def)

theorem fetch_keeps_timed_events_witness:
  "fetch_events (world (ok_reply [event_0900, all_day_event, event_1000])) post_request alice_db
     = (\<lparr> status = 200, body = Success three_payload \<rparr>, alice_fetch_calls)
   \<and> events three_payload = map format_event [event_0900, event_1000]
   \<and> keep_event event_0900 \<and> keep_event event_1000 \<and> \<not> keep_event all_day_event
   \<and> date (ev_start all_day_event) = Some ''2024-05-01''
   \<and> all_day_event \<notin> set (filter keep_event [event_0900, all_day_event, event_1000])"
proof -
  from fetch_keeps_timed_events [OF fetch_three_events body_example]
  obtain r items where
    r: "provider_reply (world (ok_reply [event_0900, all_day_event, event_1000])) = Inr r"
       "json_items r = Inr items"
    and ev: "events three_payload = map format_event (filter keep_event (items_or_empty items))"
    and no: "dateTime (ev_start all_day_event) = None \<or> dateTime (ev_end all_day_event) = None
               \<longrightarrow> all_day_event \<notin> set (filter keep_event (items_or_empty items))"
    by blast
  have xs: "items_or_empty items = [event_0900, all_day_event, event_1000]"
    by (rule reply_example [OF r])
  have a: "events three_payload = map format_event [event_0900, event_1000]"
    using ev by (simp only: xs keep_example)
  have "dateTime (ev_start all_day_event) = None"
    by (simp add: all_day_event_def)
  with no have b: "all_day_event \<notin> set (filter keep_event [event_0900, all_day_event, event_1000])"
    by (simp only: xs) simp
  have c: "keep_event event_0900" "keep_event event_1000" "\<not> keep_event all_day_event"
    by (simp_all add: keep_event_def event_0900_def event_1000_def all_day_event_def
        timed_event_def truthy_def)
  have d: "date (ev_start all_day_event) = Some ''2024-05-01''"
    by (simp add: all_day_event_def)
  from fetch_three_events a b c d show ?thesis by blast
qed

text \<open>
  C8. Every event that passes the all-day filter is returned with the provider's id, with
  the provider's summary as title or \<open>Untitled Event\<close> when there is none, with description
  and location defaulted to the empty string, with the provider's start and end
  \<open>dateTime\<close>, and with the hangout link as meeting link when there is one, otherwise the
  HTML link, otherwise the empty string. A field that is the empty string counts as
  absent, as \<open>||\<close> has it.
\<close>

theorem fetch_normalized_fields:
  assumes "fetch_events e req db = (resp, tr)" and "body resp = Success p"
  shows "\<exists>r items. provider_reply e = Inr r \<and> json_items r = Inr items
     \<and> events p = map format_event (filter keep_event (items_or_empty items))
     \<and> (\<forall>ev \<in> set (filter keep_event (items_or_empty items)).
          event_id (format_event ev) = ev_id ev
        \<and> title (format_event ev) =
            (case ev_summary ev of None \<Rightarrow> ''Untitled Event''
             | Some s \<Rightarrow> if s = [] then ''Untitled Event'' else s)
        \<and> description (format_event ev) = (case ev_description ev of None \<Rightarrow> [] | Some s \<Rightarrow> s)
        \<and> startTime (format_event ev) = dateTime (ev_start ev)
        \<and> (\<exists>s. startTime (format_event ev) = Some s \<and> s \<noteq> [])
        \<and> endTime (format_event ev) = dateTime (ev_end ev)
        \<and> (\<exists>s. endTime (format_event ev) = Some s \<and> s \<noteq> [])
        \<and> location (format_event ev) = (case ev_location ev of None \<Rightarrow> [] | Some s \<Rightarrow> s)
        \<and> meetingLink (format_event ev) =
            (case hangoutLink ev of
               Some h \<Rightarrow> if h = [] then (case htmlLink ev of None \<Rightarrow> [] | Some l \<Rightarrow> l) else h
             | None \<Rightarrow> (case htmlLink ev of None \<Rightarrow> [] | Some l \<Rightarrow> l)))"
    (is "\<exists>r items. _ \<and> _ \<and> _ \<and> (\<forall>ev \<in> _. ?Q ev)")
proof -
  from fetch_success_items [OF assms] obtain r items where
    r: "provider_reply e = Inr r" "json_items r = Inr items"
    and p: "p = fetch_success (parse_date e) (clock e) items" by blast
  have ev: "events p = map format_event (filter keep_event (items_or_empty items))"
    by (simp add: p fetch_success_def Let_def filteredEvents_def)
  have f: "?Q ev" if "keep_event ev" for ev
    using that
    by (auto simp: keep_event_def truthy_def format_event_def or_default_def split: option.splits)
  have "\<forall>ev \<in> set (filter keep_event (items_or_empty items)). ?Q ev"
  proof
    fix ev assume "ev \<in> set (filter keep_event (items_or_empty items))"
    then have "keep_event ev" by simp
    then show "?Q ev" by (rule f)
  qed
  with r ev show ?thesis by blast
qed

lemma format_example:
  "format_event event_1000 =
     \<lparr> event_id = ''e2'', title = ''Untitled Event'', description = [],
       startTime = Some ''2024-05-01T10:00:00Z'', endTime = Some ''2024-05-01T11:00:00Z'',
       location = [], meetingLink = ''https://calendar.example/e'' \<rparr>"
  by (simp add: format_event_def event_1000_def timed_event_def or_default_def)

theorem fetch_normalized_fields_witness:
  "fetch_events (world (ok_reply [event_0900, all_day_event, event_1000])) post_request alice_db
     = (\<lparr> status = 200, body = Success three_payload \<rparr>, alice_fetch_calls)
   \<and> events three_payload = [format_event event_0900, format_event event_1000]
   \<and> event_1000 \<in> set (filter keep_event [event_0900, all_day_event, event_1000])
   \<and> ev_summary event_1000 = None \<and> hangoutLink event_1000 = None
   \<and> htmlLink event_1000 = Some ''https://calendar.example/e''
   \<and> title (format_event event_1000) = ''Untitled Event''
   \<and> format_event event_1000 =
     \<lparr> event_id = ''e2'', title = ''Untitled Event'', description = [],
       startTime = Some ''2024-05-01T10:00:00Z'', endTime = Some ''2024-05-01T11:00:00Z'',
       location = [], meetingLink = ''https://calendar.example/e'' \<rparr>"
proof -
  from fetch_normalized_fields [OF fetch_three_events body_example]
  obtain r items where
    r: "provider_reply (world (ok_reply [event_0900, all_day_event, event_1000])) = Inr r"
       "json_items r = Inr items"
    and ev: "events three_payload = map format_event (filter keep_event (items_or_empty items))"
    and q: "\<forall>ev \<in> set (filter keep_event (items_or_empty items)).
              title (format_event ev) =
                (case ev_summary ev of None \<Rightarrow> ''Untitled Event''
                 | Some s \<Rightarrow> if s = [] then ''Untitled Event'' else s)"
    by blast
  have xs: "items_or_empty items = [event_0900, all_day_event, event_1000]"
    by (rule reply_example [OF r])
  have a: "events three_payload = [format_event event_0900, format_event event_1000]"
    using ev by (simp only: xs keep_example) simp
  have b: "event_1000 \<in> set (filter keep_event [event_0900, all_day_event, event_1000])"
    by (simp only: keep_example) simp
  have c: "ev_summary event_1000 = None" "hangoutLink event_1000 = None"
    "htmlLink event_1000 = Some ''https://calendar.example/e''"
    by (simp_all add: event_1000_def timed_event_def)
  from q b have "title (format_event event_1000) =
      (case ev_summary event_1000 of None \<Rightarrow> ''Untitled Event''
       | Some s \<Rightarrow> if s = [] then ''Untitled Event'' else s)"
    unfolding xs by (rule bspec)
  then have d: "title (format_event event_1000) = ''Untitled Event''"
    by (simp add: c)
  from fetch_three_events a b c d format_example show ?thesis by blast
qed

lemma find_sorted_first:
  assumes "sorted_wrt R xs" and "find P xs = Some n" and "x \<in> set xs" and "P x"
  shows "x = n \<or> R n x"
  using assms
proof (induction xs)
  case Nil
  then show ?case by simp
next
  case (Cons a xs)
  show ?case
  proof (cases "P a")
    case True
    with Cons.prems have "n = a" by simp
    with Cons.prems show ?thesis by auto
  next
    case False
    with Cons.prems have "find P xs = Some n" "x \<in> set xs" "sorted_wrt R xs" by auto
    with Cons.IH Cons.prems(4) show ?thesis by blast
  qed
qed

text \<open>
  C3, as amended. When the filtered, normalized list of a successful fetch is ordered by
  start instant (what the request asks of the provider with \<open>orderBy=startTime\<close>),
  \<open>nextEvent\<close> is an event of that list that starts strictly after the request instant
  \<open>now\<close> and no event of the list starting strictly after \<open>now\<close> starts before it; it
  is null exactly when no event of the list starts strictly after \<open>now\<close>. On a list that
  is not ordered, the handler returns the first such event in list order, which need not
  be the earliest.
\<close>

theorem fetch_nextEvent_earliest:
  assumes "fetch_events e req db = (resp, tr)" and "body resp = Success p"
    and "sorted_wrt (\<lambda>a b. \<forall>ta tb. new_Date (parse_date e) (startTime a) = Some ta
                          \<and> new_Date (parse_date e) (startTime b) = Some tb \<longrightarrow> ta \<le> tb) (events p)"
  shows "(case nextEvent p of
            None \<Rightarrow> \<forall>ev \<in> set (events p). \<forall>t. new_Date (parse_date e) (startTime ev) = Some t
                       \<longrightarrow> \<not> clock e < t
          | Some n \<Rightarrow> n \<in> set (events p)
              \<and> (\<exists>t. new_Date (parse_date e) (startTime n) = Some t \<and> clock e < t
                  \<and> (\<forall>ev \<in> set (events p). \<forall>t'. new_Date (parse_date e) (startTime ev) = Some t'
                        \<and> clock e < t' \<longrightarrow> t \<le> t')))"
proof -
  let ?P = "starts_after (parse_date e) (clock e)"
  from fetch_success_items [OF assms(1,2)] obtain items where
    p: "p = fetch_success (parse_date e) (clock e) items" by blast
  have nx: "nextEvent p = find ?P (events p)"
    by (simp add: p fetch_success_def Let_def nextEvent_of_def)
  show ?thesis
  proof (cases "nextEvent p")
    case None
    with nx have "find ?P (events p) = None" by simp
    then have "\<forall>ev \<in> set (events p). \<not> ?P ev"
      by (simp add: find_None_iff)
    then show ?thesis
      by (auto simp: None starts_after_def split: option.splits)
  next
    case (Some n)
    with nx have f: "find ?P (events p) = Some n" by simp
    from find_in_set [OF f] have n: "n \<in> set (events p)" "?P n" by auto
    from n(2) obtain t where t: "new_Date (parse_date e) (startTime n) = Some t" "clock e < t"
      by (auto simp: starts_after_def split: option.splits)
    have "t \<le> t'" if "ev \<in> set (events p)"
      "new_Date (parse_date e) (startTime ev) = Some t'" "clock e < t'" for ev t'
    proof -
      from that have "?P ev" by (simp add: starts_after_def)
      from find_sorted_first [OF assms(3) f that(1) this] t(1) that(2)
      show ?thesis by auto
    qed
    with n(1) t show ?thesis by (auto simp: Some)
  qed
qed

lemma unsorted_payload_example:
  "fetch_success parse_example at_0930 (Some [event_1000, event_0945]) =
     \<lparr> events = [format_event event_1000, format_event event_0945],
       nextEvent = Some (format_event event_1000), totalCount = 2 \<rparr>"
  by (simp add: fetch_success_def items_or_empty_def filteredEvents_def nextEvent_of_def
        starts_after_example)
     (simp add: keep_event_def event_1000_def event_0945_def timed_event_def truthy_def)

lemma start_instant_example:
  "new_Date parse_example (startTime (format_event event_0900)) = Some 1714554000000"
  "new_Date parse_example (startTime (format_event event_0945)) = Some 1714556700000"
  "new_Date parse_example (startTime (format_event event_1000)) = Some 1714557600000"
  by (simp_all add: new_Date_def format_event_def event_0900_def event_1000_def
        event_0945_def timed_event_def parse_example_def)

text \<open>
  The provider answers with the 10:00 event before the 09:45 event, at 09:30: \<open>nextEvent\<close>
  is the 10:00 event, although the 09:45 event starts after 09:30 and before 10:00.
\<close>

theorem fetch_nextEvent_counterexample:
  "fetch_events (world (ok_reply [event_1000, event_0945])) post_request alice_db =
     (\<lparr> status = 200,
        body = Success \<lparr> events = [format_event event_1000, format_event event_0945],
                         nextEvent = Some (format_event event_1000), totalCount = 2 \<rparr> \<rparr>,
      alice_fetch_calls)
   \<and> new_Date parse_example (startTime (format_event event_1000)) = Some 1714557600000
   \<and> new_Date parse_example (startTime (format_event event_0945)) = Some 1714556700000
   \<and> at_0930 < 1714556700000 \<and> (1714556700000 :: int) < 1714557600000"
proof -
  have "at_0930 < 1714556700000"
    by (simp add: at_0930_def)
  then show ?thesis
    by (simp add: fetch_run_example unsorted_payload_example start_instant_example)
qed

text \<open>Events at 09:00 and 10:00, request instant 09:30: \<open>nextEvent\<close> is the 10:00 event.\<close>

theorem fetch_nextEvent_earliest_witness:
  "fetch_events (world (ok_reply [event_0900, all_day_event, event_1000])) post_request alice_db
     = (\<lparr> status = 200, body = Success three_payload \<rparr>, alice_fetch_calls)
   \<and> events three_payload = [format_event event_0900, format_event event_1000]
   \<and> new_Date parse_example (startTime (format_event event_0900)) = Some 1714554000000
   \<and> new_Date parse_example (startTime (format_event event_1000)) = Some 1714557600000
   \<and> clock (world (ok_reply [event_0900, all_day_event, event_1000])) = 1714555800000
   \<and> nextEvent three_payload = Some (format_event event_1000)
   \<and> format_event event_1000 \<in> set (events three_payload)"
proof -
  let ?w = "world (ok_reply [event_0900, all_day_event, event_1000])"
  have pd: "parse_date ?w = parse_example" "clock ?w = at_0930"
    by (simp_all add: world_def)
  have s: "sorted_wrt (\<lambda>a b. \<forall>ta tb. new_Date (parse_date ?w) (startTime a) = Some ta
                          \<and> new_Date (parse_date ?w) (startTime b) = Some tb \<longrightarrow> ta \<le> tb)
             (events three_payload)"
    by (simp add: three_payload_def pd start_instant_example)
  have nx: "nextEvent three_payload = Some (format_event event_1000)"
    by (simp add: three_payload_def)
  from fetch_nextEvent_earliest [OF fetch_three_events body_example s]
  have a: "format_event event_1000 \<in> set (events three_payload)"
    unfolding nx by simp
  have b: "events three_payload = [format_event event_0900, format_event event_1000]"
    by (simp add: three_payload_def)
  have c: "clock ?w = 1714555800000"
    by (simp add: pd at_0930_def)
  from fetch_three_events a b c nx start_instant_example(1,3) show ?thesis by blast
qed

section \<open>fetch-events: failures\<close>

lemma authenticate_calls:
  "authenticate e req = (r, tr1) \<Longrightarrow> FetchEvents c \<notin> set tr1"
  by (auto simp: authenticate_def Let_def split: option.splits if_splits)

lemma fetch_events_authed:
  assumes "req_method req \<noteq> ''OPTIONS''" and "authenticate e req = (Inr user, tr1)"
    and "fetch_events e req db = (resp, tr)"
  shows "\<exists>r tr2. fetch_events_for e db user = (r, tr2) \<and> tr = tr1 @ tr2
           \<and> resp = (case r of Inl m \<Rightarrow> \<lparr> status = 500, body = Failure m \<rparr>
                               | Inr q \<Rightarrow> \<lparr> status = 200, body = Success q \<rparr>)"
  using assms
  by (auto simp: fetch_events_def fetch_events_try_def split: sum.splits prod.splits)

lemma select_single_absent:
  "settings_of uid db = [] \<Longrightarrow> \<exists>m. select_single fault db uid = Inl m"
  by (auto simp: select_single_def settings_of_def split: option.splits)

lemma fetch_events_for_absent:
  "select_single (select_fault e) db (user_id user) = Inl m \<Longrightarrow>
   fetch_events_for e db user =
     (Inl ''User settings not found. Please complete setup first.'', [SelectSettings (user_id user)])"
  by (simp add: fetch_events_for_def)

lemma fetch_events_for_disabled:
  "select_single (select_fault e) db (user_id user) = Inr s \<Longrightarrow> \<not> service_enabled s \<Longrightarrow>
   fetch_events_for e db user =
     (Inl ''Calert service is not enabled'', [SelectSettings (user_id user)])"
  by (simp add: fetch_events_for_def)

lemma fetch_events_for_no_calendar:
  "select_single (select_fault e) db (user_id user) = Inr s \<Longrightarrow> service_enabled s \<Longrightarrow>
   \<not> truthy (selected_calendar_id s) \<Longrightarrow>
   fetch_events_for e db user = (Inl ''No calendar selected'', [SelectSettings (user_id user)])"
  by (simp add: fetch_events_for_def)

lemma fetch_events_for_no_token:
  "select_single (select_fault e) db (user_id user) = Inr s \<Longrightarrow> service_enabled s \<Longrightarrow>
   truthy (selected_calendar_id s) \<Longrightarrow> \<not> truthy (google_access_token s) \<Longrightarrow>
   fetch_events_for e db user =
     (Inl ''No Google access token found. Please reconnect your Google account.'',
      [SelectSettings (user_id user)])"
  by (simp add: fetch_events_for_def)

lemma fetch_events_for_called:
  assumes "fetch_events_for e db user = (r, tr2)" and "FetchEvents c \<in> set tr2"
  shows "\<exists>s. select_single (select_fault e) db (user_id user) = Inr s \<and> service_enabled s
            \<and> truthy (selected_calendar_id s) \<and> truthy (google_access_token s)
            \<and> tr2 = [SelectSettings (user_id user), FetchEvents c]"
  using assms
  by (auto simp: fetch_events_for_def Let_def split: sum.splits if_splits)

text \<open>
  C5. For a fetch request of an authenticated caller, four preconditions are checked
  before any call to the provider, each failing with a message of its own: no settings
  row, service flag false, no calendar selected, no stored access token. With the service
  flag false the answer is the error \<open>Calert service is not enabled\<close> and no call to the
  provider is made, whatever the token and the calendar; a call to the provider is made
  only when all four hold.
\<close>

theorem fetch_preconditions:
  assumes "req_method req \<noteq> ''OPTIONS''" and "authenticate e req = (Inr user, tr1)"
    and "fetch_events e req db = (resp, tr)"
  shows "(settings_of (user_id user) db = [] \<longrightarrow>
            resp = \<lparr> status = 500,
                     body = Failure ''User settings not found. Please complete setup first.'' \<rparr>
          \<and> (\<forall>c. FetchEvents c \<notin> set tr))
       \<and> (\<forall>s. select_single (select_fault e) db (user_id user) = Inr s \<longrightarrow>
            (\<not> service_enabled s \<longrightarrow>
               resp = \<lparr> status = 500, body = Failure ''Calert service is not enabled'' \<rparr>
             \<and> (\<forall>c. FetchEvents c \<notin> set tr))
          \<and> (service_enabled s \<and> \<not> truthy (selected_calendar_id s) \<longrightarrow>
               resp = \<lparr> status = 500, body = Failure ''No calendar selected'' \<rparr>
             \<and> (\<forall>c. FetchEvents c \<notin> set tr))
          \<and> (service_enabled s \<and> truthy (selected_calendar_id s)
                \<and> \<not> truthy (google_access_token s) \<longrightarrow>
               resp = \<lparr> status = 500,
                        body = Failure ''No Google access token found. Please reconnect your Google account.'' \<rparr>
             \<and> (\<forall>c. FetchEvents c \<notin> set tr)))
       \<and> ((\<exists>c. FetchEvents c \<in> set tr) \<longrightarrow>
            (\<exists>s. select_single (select_fault e) db (user_id user) = Inr s \<and> service_enabled s
                \<and> truthy (selected_calendar_id s) \<and> truthy (google_access_token s)))
       \<and> distinct [''User settings not found. Please complete setup first.'',
                    ''Calert service is not enabled'', ''No calendar selected'',
                    ''No Google access token found. Please reconnect your Google account.'']"
proof -
  from fetch_events_authed [OF assms] obtain r tr2 where
    run: "fetch_events_for e db user = (r, tr2)" and tr: "tr = tr1 @ tr2"
    and resp: "resp = (case r of Inl m \<Rightarrow> \<lparr> status = 500, body = Failure m \<rparr>
                               | Inr q \<Rightarrow> \<lparr> status = 200, body = Success q \<rparr>)"
    by blast
  have no1: "FetchEvents c \<notin> set tr1" for c
    by (rule authenticate_calls [OF assms(2)])
  have a: "settings_of (user_id user) db = [] \<longrightarrow>
            resp = \<lparr> status = 500,
                     body = Failure ''User settings not found. Please complete setup first.'' \<rparr>
          \<and> (\<forall>c. FetchEvents c \<notin> set tr)"
  proof
    assume "settings_of (user_id user) db = []"
    from select_single_absent [OF this] obtain m where
      "select_single (select_fault e) db (user_id user) = Inl m" by blast
    from fetch_events_for_absent [OF this] run resp tr no1 show
      "resp = \<lparr> status = 500,
                body = Failure ''User settings not found. Please complete setup first.'' \<rparr>
          \<and> (\<forall>c. FetchEvents c \<notin> set tr)" by auto
  qed
  have b: "\<not> service_enabled s \<longrightarrow>
               resp = \<lparr> status = 500, body = Failure ''Calert service is not enabled'' \<rparr>
             \<and> (\<forall>c. FetchEvents c \<notin> set tr)"
    if "select_single (select_fault e) db (user_id user) = Inr s" for s
    using fetch_events_for_disabled [OF that] run resp tr no1 by auto
  have c: "service_enabled s \<and> \<not> truthy (selected_calendar_id s) \<longrightarrow>
               resp = \<lparr> status = 500, body = Failure ''No calendar selected'' \<rparr>
             \<and> (\<forall>c. FetchEvents c \<notin> set tr)"
    if "select_single (select_fault e) db (user_id user) = Inr s" for s
    using fetch_events_for_no_calendar [OF that] run resp tr no1 by auto
  have d: "service_enabled s \<and> truthy (selected_calendar_id s)
                \<and> \<not> truthy (google_access_token s) \<longrightarrow>
               resp = \<lparr> status = 500,
                        body = Failure ''No Google access token found. Please reconnect your Google account.'' \<rparr>
             \<and> (\<forall>c. FetchEvents c \<notin> set tr)"
    if "select_single (select_fault e) db (user_id user) = Inr s" for s
    using fetch_events_for_no_token [OF that] run resp tr no1 by auto
  have f: "(\<exists>c. FetchEvents c \<in> set tr) \<longrightarrow>
            (\<exists>s. select_single (select_fault e) db (user_id user) = Inr s \<and> service_enabled s
                \<and> truthy (selected_calendar_id s) \<and> truthy (google_access_token s))"
  proof
    assume "\<exists>c. FetchEvents c \<in> set tr"
    then obtain c where "FetchEvents c \<in> set tr2" using tr no1 by auto
    from fetch_events_for_called [OF run this] show
      "\<exists>s. select_single (select_fault e) db (user_id user) = Inr s \<and> service_enabled s
                \<and> truthy (selected_calendar_id s) \<and> truthy (google_access_token s)" by blast
  qed
  have g: "distinct [''User settings not found. Please complete setup first.'',
                    ''Calert service is not enabled'', ''No calendar selected'',
                    ''No Google access token found. Please reconnect your Google account.'']"
    by simp
  from a b c d f g show ?thesis by blast
qed

lemma select_disabled_example:
  "select_single (select_fault (world reply)) disabled_db (user_id alice)
     = Inr (alice_settings\<lparr> service_enabled := False \<rparr>)"
  by (simp add: select_single_def disabled_db_def alice_settings_def world_def alice_def)

lemma fetch_disabled_example:
  "fetch_events (world reply) post_request disabled_db =
     (\<lparr> status = 500, body = Failure ''Calert service is not enabled'' \<rparr>,
      [GetUser ''session-jwt'', SelectSettings ''u-alice''])"
  unfolding fetch_events_def fetch_events_try_def authenticate_example
  by (simp add: post_request_def fetch_events_for_def select_disabled_example)
     (simp add: alice_def)

theorem fetch_preconditions_witness:
  "req_method post_request \<noteq> ''OPTIONS''
   \<and> authenticate (world (ok_reply [event_1000])) post_request = (Inr alice, [GetUser ''session-jwt''])
   \<and> select_single (select_fault (world (ok_reply [event_1000]))) disabled_db (user_id alice)
        = Inr (alice_settings\<lparr> service_enabled := False \<rparr>)
   \<and> \<not> service_enabled (alice_settings\<lparr> service_enabled := False \<rparr>)
   \<and> selected_calendar_id (alice_settings\<lparr> service_enabled := False \<rparr>) = Some ''primary''
   \<and> google_access_token (alice_settings\<lparr> service_enabled := False \<rparr>) = Some ''ya29.old''
   \<and> fetch_events (world (ok_reply [event_1000])) post_request disabled_db =
        (\<lparr> status = 500, body = Failure ''Calert service is not enabled'' \<rparr>,
         [GetUser ''session-jwt'', SelectSettings ''u-alice''])
   \<and> (\<forall>c. FetchEvents c \<notin> set [GetUser ''session-jwt'', SelectSettings ''u-alice''])"
proof -
  let ?w = "world (ok_reply [event_1000]) :: GoogleEvent env"
  let ?s = "alice_settings\<lparr> service_enabled := False \<rparr>"
  have m: "req_method post_request \<noteq> ''OPTIONS''"
    by (simp add: post_request_def)
  have a: "authenticate ?w post_request = (Inr alice, [GetUser ''session-jwt''])"
    by (rule authenticate_example)
  have s: "select_single (select_fault ?w) disabled_db (user_id alice) = Inr ?s"
    by (rule select_disabled_example)
  have off: "\<not> service_enabled ?s" by simp
  have present: "selected_calendar_id ?s = Some ''primary''" "google_access_token ?s = Some ''ya29.old''"
    by (simp_all add: alice_settings_def)
  from fetch_preconditions [OF m a fetch_disabled_example] s off
  have r: "\<forall>c. FetchEvents c \<notin> set [GetUser ''session-jwt'', SelectSettings ''u-alice'']"
    by blast
  from m a s off present fetch_disabled_example r show ?thesis by blast
qed

lemma fetch_events_called:
  assumes "fetch_events e req db = (resp, tr)" and "FetchEvents c \<in> set tr"
  shows "\<exists>user tr1. req_method req \<noteq> ''OPTIONS'' \<and> authenticate e req = (Inr user, tr1)"
  using assms
  by (auto simp: fetch_events_def fetch_events_try_def split: if_splits sum.splits prod.splits
        dest: authenticate_calls)

lemma authenticate_InrD:
  "authenticate e req = (Inr user, tr1) \<Longrightarrow> \<exists>token. tr1 = [GetUser token]"
  by (auto simp: authenticate_def Let_def split: option.splits if_splits)

lemma fetch_events_for_not_ok:
  assumes "provider_reply e = Inr r" and "\<not> ok r"
    and "fetch_events_for e db user = (res, [SelectSettings (user_id user), FetchEvents c])"
  shows "res = (if http_status r = 401
                then Inl ''Google access token expired. Please reconnect your Google account.''
                else Inl (''Google Calendar API error: '' @ show_nat (http_status r) @ '' - ''
                          @ text_body r))"
  using assms
  by (auto simp: fetch_events_for_def Let_def split: sum.splits if_splits)

text \<open>
  C6. When the provider's events endpoint answers a fetch with status 401, the function
  fails with exactly the error \<open>Google access token expired. Please reconnect your Google
  account.\<close>; with any other non-success status it fails with an error that holds the
  provider's status and body. In both cases the calls made are the identity lookup, the
  settings read and the one events request: nothing refreshes the token.
\<close>

theorem fetch_upstream_error:
  assumes "fetch_events e req db = (resp, tr)" and "FetchEvents c \<in> set tr"
    and "provider_reply e = Inr r" and "\<not> ok r"
  shows "(http_status r = 401 \<longrightarrow>
            resp = \<lparr> status = 500,
                     body = Failure ''Google access token expired. Please reconnect your Google account.'' \<rparr>)
       \<and> (http_status r \<noteq> 401 \<longrightarrow>
            resp = \<lparr> status = 500,
                     body = Failure (''Google Calendar API error: '' @ show_nat (http_status r)
                                     @ '' - '' @ text_body r) \<rparr>)
       \<and> (\<exists>token uid. tr = [GetUser token, SelectSettings uid, FetchEvents c])"
proof -
  from fetch_events_called [OF assms(1,2)] obtain user tr1 where
    m: "req_method req \<noteq> ''OPTIONS''" and a: "authenticate e req = (Inr user, tr1)" by blast
  from authenticate_InrD [OF a] obtain token where tr1: "tr1 = [GetUser token]" by blast
  from fetch_events_authed [OF m a assms(1)] obtain res tr2 where
    run: "fetch_events_for e db user = (res, tr2)" and tr: "tr = tr1 @ tr2"
    and resp: "resp = (case res of Inl m \<Rightarrow> \<lparr> status = 500, body = Failure m \<rparr>
                               | Inr q \<Rightarrow> \<lparr> status = 200, body = Success q \<rparr>)"
    by blast
  from assms(2) tr tr1 have "FetchEvents c \<in> set tr2" by simp
  from fetch_events_for_called [OF run this]
  have tr2: "tr2 = [SelectSettings (user_id user), FetchEvents c]" by blast
  from fetch_events_for_not_ok [OF assms(3,4) run [unfolded tr2]]
  have res: "res = (if http_status r = 401
                then Inl ''Google access token expired. Please reconnect your Google account.''
                else Inl (''Google Calendar API error: '' @ show_nat (http_status r) @ '' - ''
                          @ text_body r))" .
  have "tr = [GetUser token, SelectSettings (user_id user), FetchEvents c]"
    by (simp add: tr tr1 tr2)
  with resp res show ?thesis by auto
qed

lemma show_nat_example: "show_nat 401 = ''401''" "show_nat 403 = ''403''" "show_nat 2 = ''2''"
  "show_nat 0 = ''0''"
  by (simp_all add: show_nat.simps digit_char_def)

lemma fetch_error_example:
  "\<not> (200 \<le> n \<and> n \<le> 299) \<Longrightarrow>
   fetch_events (world (error_reply n t)) post_request alice_db =
     (\<lparr> status = 500,
        body = Failure (if n = 401
                        then ''Google access token expired. Please reconnect your Google account.''
                        else ''Google Calendar API error: '' @ show_nat n @ '' - '' @ t) \<rparr>,
      alice_fetch_calls)"
  unfolding fetch_events_def fetch_events_try_def authenticate_example
  by (simp add: post_request_def fetch_events_for_def world_def select_example alice_def
        alice_settings_def truthy_def or_default_def error_reply_def ok_def alice_fetch_calls_def)


theorem fetch_upstream_error_witness:
  "fetch_events (world (error_reply 401 ''Invalid Credentials'')) post_request alice_db =
     (\<lparr> status = 500,
        body = Failure ''Google access token expired. Please reconnect your Google account.'' \<rparr>,
      alice_fetch_calls)
   \<and> fetch_events (world (error_reply 403 ''Forbidden'')) post_request alice_db =
     (\<lparr> status = 500, body = Failure ''Google Calendar API error: 403 - Forbidden'' \<rparr>,
      alice_fetch_calls)
   \<and> FetchEvents \<lparr> call_calendar = ''primary'', timeMin = at_0930,
                    timeMax = at_0930 + 86400000, singleEvents = ''true'',
                    orderBy = ''startTime'', maxResults = ''50'', bearer = ''ya29.old'' \<rparr>
         \<in> set alice_fetch_calls
   \<and> length alice_fetch_calls = 3"
proof -
  let ?c = "\<lparr> call_calendar = ''primary'', timeMin = at_0930,
                    timeMax = at_0930 + 86400000, singleEvents = ''true'',
                    orderBy = ''startTime'', maxResults = ''50'', bearer = ''ya29.old'' \<rparr>"
  let ?r1 = "\<lparr> http_status = 401, text_body = ''Invalid Credentials'',
               json_items = Inl ''Unexpected token'' \<rparr> :: GoogleEvent provider_response"
  let ?r3 = "\<lparr> http_status = 403, text_body = ''Forbidden'',
               json_items = Inl ''Unexpected token'' \<rparr> :: GoogleEvent provider_response"
  have mem: "FetchEvents ?c \<in> set alice_fetch_calls"
    by (simp add: alice_fetch_calls_def)
  have run1: "fetch_events (world (error_reply 401 ''Invalid Credentials'')) post_request alice_db =
     (\<lparr> status = 500,
        body = Failure ''Google access token expired. Please reconnect your Google account.'' \<rparr>,
      alice_fetch_calls)"
    by (simp add: fetch_error_example)
  have run3: "fetch_events (world (error_reply 403 ''Forbidden'')) post_request alice_db =
     (\<lparr> status = 500, body = Failure (''Google Calendar API error: '' @ show_nat 403 @ '' - '' @ ''Forbidden'') \<rparr>,
      alice_fetch_calls)"
    by (simp add: fetch_error_example)
  have rep1: "provider_reply (world (error_reply 401 ''Invalid Credentials'')) = Inr ?r1"
    by (simp add: world_def error_reply_def)
  have rep3: "provider_reply (world (error_reply 403 ''Forbidden'')) = Inr ?r3"
    by (simp add: world_def error_reply_def)
  have bad: "\<not> ok ?r1" "\<not> ok ?r3"
    by (simp_all add: ok_def)
  from fetch_upstream_error [OF run1 mem rep1 bad(1)]
  obtain token uid where
    "alice_fetch_calls = [GetUser token, SelectSettings uid, FetchEvents ?c]"
    by blast
  from arg_cong [OF this, of length] have len: "length alice_fetch_calls = 3"
    by simp
  from fetch_upstream_error [OF run3 mem rep3 bad(2)]
  have "\<lparr> status = 500, body = Failure (''Google Calendar API error: '' @ show_nat 403 @ '' - '' @ ''Forbidden'') \<rparr>
        = (\<lparr> status = 500, body = Failure (''Google Calendar API error: '' @ show_nat (http_status ?r3)
                                     @ '' - '' @ text_body ?r3) \<rparr> :: fetch_payload response)"
    by simp
  have msg: "''Google Calendar API error: '' @ show_nat 403 @ '' - '' @ ''Forbidden''
               = ''Google Calendar API error: 403 - Forbidden''"
    by (simp add: show_nat_example)
  from run1 run3 [unfolded msg] mem len show ?thesis by blast
qed

section \<open>sync-calendars: the provider token is never found\<close>











section \<open>Both handlers: every failure is answered with status 500\<close>











section \<open>The frontend: sign-in\<close>

lemma run_timer_step:
  "sent (run_timer st) = sent st @ map task_upsert (take 1 (timers st))
   \<and> timers (run_timer st) = drop 1 (timers st)"
  by (cases "timers st") (auto simp: run_timer_def createOrUpdateProfile_def split: task.splits)

lemma run_timers:
  "sent ((run_timer ^^ n) st) = sent st @ map task_upsert (take n (timers st))
   \<and> timers ((run_timer ^^ n) st) = drop n (timers st)"
proof (induction n arbitrary: st)
  case 0
  show ?case by simp
next
  case (Suc n)
  have "(run_timer ^^ Suc n) st = (run_timer ^^ n) (run_timer st)"
    by (simp add: funpow_swap1)
  with Suc [of "run_timer st"] run_timer_step [of st] show ?case
    by (cases "timers st") simp_all
qed

lemma split_at_first_local:
  "\<exists>rest. a = split_at_first a @ rest \<and> CHR ''@'' \<notin> set (split_at_first a)
          \<and> (rest = [] \<or> hd rest = CHR ''@'')"
proof -
  let ?rest = "dropWhile (\<lambda>c. c \<noteq> CHR ''@'') a"
  have 1: "a = split_at_first a @ ?rest"
    by (simp add: split_at_first_def)
  have 2: "CHR ''@'' \<notin> set (split_at_first a)"
    by (auto simp: split_at_first_def dest: set_takeWhileD)
  have 3: "?rest = [] \<or> hd ?rest = CHR ''@''"
    using hd_dropWhile [of "\<lambda>c. c \<noteq> CHR ''@''" a] by auto
  from 1 2 3 show ?thesis by blast
qed

text \<open>
  C9. On a sign-in event with a user, the listener puts one profile upsert for that user
  at the end of the timer queue and returns with the state updated and nothing sent: the
  upsert runs on a later turn of the event loop, once the timers queued before it have
  run, and its result goes to no caller. The record upserted carries the user's id, and
  as display name the provider-supplied full name when there is one (not empty),
  otherwise the part of the email address before its first \<open>@\<close>; without a full name
  and without an email address the display name is left undefined.
\<close>

theorem signin_upserts_profile:
  assumes "event = ''SIGNED_IN''" and "session = Some s" and "u = session_user s"
  shows "timers (onAuthStateChange event session st) = timers st @ [CreateOrUpdateProfile u]
       \<and> sent (onAuthStateChange event session st) = sent st
       \<and> cur_user (onAuthStateChange event session st) = Some u
       \<and> sent ((run_timer ^^ Suc (length (timers st))) (onAuthStateChange event session st))
           = sent st @ map task_upsert (timers st) @ [profile_of u]
       \<and> p_user_id (profile_of u) = user_id u
       \<and> (\<forall>n. full_name u = Some n \<and> n \<noteq> [] \<longrightarrow> display_name (profile_of u) = Some n)
       \<and> (\<forall>a. \<not> truthy (full_name u) \<and> email u = Some a \<longrightarrow>
             display_name (profile_of u) = Some (split_at_first a)
           \<and> (\<exists>rest. a = split_at_first a @ rest \<and> CHR ''@'' \<notin> set (split_at_first a)
                  \<and> (rest = [] \<or> hd rest = CHR ''@'')))
       \<and> (\<not> truthy (full_name u) \<and> email u = None \<longrightarrow> display_name (profile_of u) = None)"
proof -
  let ?st' = "onAuthStateChange event session st"
  have t: "timers ?st' = timers st @ [CreateOrUpdateProfile u]"
    and n: "sent ?st' = sent st" and c: "cur_user ?st' = Some u"
    using assms by (simp_all add: onAuthStateChange_def)
  have r: "sent ((run_timer ^^ Suc (length (timers st))) ?st')
           = sent st @ map task_upsert (timers st) @ [profile_of u]"
    using run_timers [of "Suc (length (timers st))" ?st'] by (simp add: t n)
  have i: "p_user_id (profile_of u) = user_id u"
    by (simp add: profile_of_def)
  have f: "\<forall>n. full_name u = Some n \<and> n \<noteq> [] \<longrightarrow> display_name (profile_of u) = Some n"
    by (simp add: profile_of_def display_name_of_def truthy_def)
  have e: "\<forall>a. \<not> truthy (full_name u) \<and> email u = Some a \<longrightarrow>
             display_name (profile_of u) = Some (split_at_first a)
           \<and> (\<exists>rest. a = split_at_first a @ rest \<and> CHR ''@'' \<notin> set (split_at_first a)
                  \<and> (rest = [] \<or> hd rest = CHR ''@''))"
    using split_at_first_local by (simp add: profile_of_def display_name_of_def)
  have z: "\<not> truthy (full_name u) \<and> email u = None \<longrightarrow> display_name (profile_of u) = None"
    by (simp add: profile_of_def display_name_of_def)
  from t n c r i f e z show ?thesis by blast
qed

lemma profile_example:
  "profile_of alice = \<lparr> p_user_id = ''u-alice'', p_email = Some ''alice@example.org'',
                        display_name = Some ''alice'', p_avatar_url = None \<rparr>"
  "profile_of bob = \<lparr> p_user_id = ''u-bob'', p_email = Some ''bob@example.org'',
                      display_name = Some ''Bob Builder'', p_avatar_url = None \<rparr>"
  by (simp_all add: profile_of_def display_name_of_def alice_def bob_def truthy_def
        split_at_first_def)

theorem signin_upserts_profile_witness:
  "timers (onAuthStateChange ''SIGNED_IN'' (Some (session_of alice)) mounted)
     = [CreateOrUpdateProfile alice]
   \<and> sent (onAuthStateChange ''SIGNED_IN'' (Some (session_of alice)) mounted) = []
   \<and> sent (run_timer (onAuthStateChange ''SIGNED_IN'' (Some (session_of alice)) mounted))
     = [\<lparr> p_user_id = ''u-alice'', p_email = Some ''alice@example.org'',
          display_name = Some ''alice'', p_avatar_url = None \<rparr>]
   \<and> full_name alice = None \<and> email alice = Some ''alice@example.org''
   \<and> split_at_first ''alice@example.org'' = ''alice''
   \<and> sent (run_timer (onAuthStateChange ''SIGNED_IN'' (Some (session_of bob)) mounted))
     = [\<lparr> p_user_id = ''u-bob'', p_email = Some ''bob@example.org'',
          display_name = Some ''Bob Builder'', p_avatar_url = None \<rparr>]
   \<and> full_name bob = Some ''Bob Builder''"
proof -
  have ua: "alice = session_user (session_of alice)" and ub: "bob = session_user (session_of bob)"
    by (simp_all add: session_of_def)
  have m: "timers mounted = []" "sent mounted = []"
    by (simp_all add: mounted_def)
  from signin_upserts_profile [OF refl refl ua, of mounted]
  have a: "timers (onAuthStateChange ''SIGNED_IN'' (Some (session_of alice)) mounted)
             = [CreateOrUpdateProfile alice]"
    and b: "sent (onAuthStateChange ''SIGNED_IN'' (Some (session_of alice)) mounted) = []"
    and c: "sent (run_timer (onAuthStateChange ''SIGNED_IN'' (Some (session_of alice)) mounted))
             = [profile_of alice]"
    by (simp_all add: m)
  from signin_upserts_profile [OF refl refl ub, of mounted]
  have d: "sent (run_timer (onAuthStateChange ''SIGNED_IN'' (Some (session_of bob)) mounted))
             = [profile_of bob]"
    by (simp add: m)
  have e: "full_name alice = None" "email alice = Some ''alice@example.org''"
    "full_name bob = Some ''Bob Builder''"
    by (simp_all add: alice_def bob_def)
  have f: "split_at_first ''alice@example.org'' = ''alice''"
    by (simp add: split_at_first_def)
  from a b c [unfolded profile_example] d [unfolded profile_example] e f show ?thesis by blast
qed

end
